theory Spec2Isabelle
  imports Complex_Main
begin

section \<open>Isochrone aggregation: a shallow embedding of isochrome.py\<close>

text \<open>
  The module computes isochrones around points sampled on the boundary of a KML region
  (class \<open>IsochroneAnalyzer\<close>) or around one typed coordinate (the single-point branch
  of the Streamlit script). Everything the Python does besides returning a value is
  explicit here: exceptions are values of \<open>exn\<close>, the remote service is a state that
  each call transforms, and \<open>time.sleep\<close> and the Streamlit calls append to logs.
  Python numbers that may be floats (coordinates, areas, delays) are read as exact
  rationals; threshold values are integers. A response of the service is the list of its
  features, each with a \<open>value\<close> and an optional \<open>area\<close>, as the service's
  contract has it.
\<close>

subsection \<open>Data\<close>

datatype exn =
    ApiError          \<comment> \<open>openrouteservice.exceptions.ApiError, the class \<open>retry_request\<close> catches\<close>
  | RuntimeError      \<comment> \<open>raised by \<open>retry_request\<close> when the attempts are used up\<close>
  | ValueError
  | NameError
  | AttributeError
  | OtherException string

type_synonym profile = string

type_synonym coord = "rat \<times> rat"   \<comment> \<open>\<open>[lon, lat]\<close>\<close>

record vertex =
  vx :: rat
  vy :: rat
  vz :: "rat option"

record polygon =
  exterior :: "vertex list"
  interiors :: "vertex list list"

datatype geometry =
    Polygon polygon
  | MultiPolygon "polygon list"
  | OtherGeometry string

record feature =
  fvalue :: int            \<comment> \<open>\<open>feature['properties']['value']\<close>\<close>
  farea :: "rat option"    \<comment> \<open>\<open>feature['properties'].get('area')\<close>\<close>

record request =
  locations :: "coord list"
  rprofile :: profile
  rrange :: "int list"
  attributes :: "string list"
  traffic :: bool          \<comment> \<open>whether \<open>options={"traffic": True}\<close> is passed\<close>

record layer =
  lfeature :: feature
  lwaktu :: int
  lprofile :: profile
  lcolour :: string
  lopacity :: rat
  larea_km2 :: rat

datatype map_item =
    BaseMap coord                 \<comment> \<open>\<open>folium.Map(location=...)\<close>\<close>
  | BoundaryLayer "geometry list"
  | IsoLayer layer
  | Marker coord string
  | LayerControl

datatype message =
    Warning_retry nat rat       \<comment> \<open>\<open>st.warning\<close>: retry number and delay\<close>
  | Error_kml_empty             \<comment> \<open>\<open>st.error("File KML kosong atau tidak valid.")\<close>\<close>
  | Info_points nat             \<comment> \<open>\<open>st.info\<close>: number of sample points\<close>
  | Write_profile profile       \<comment> \<open>\<open>st.write\<close>: profile being fetched\<close>
  | Error_point nat exn         \<comment> \<open>\<open>st.error\<close>: failure for the point with this index\<close>
  | Error_coord exn             \<comment> \<open>\<open>st.error\<close> of the single-point branch\<close>
  | Subheader_summary
  | Markdown_summary profile rat
  | Show_map "map_item list"    \<comment> \<open>\<open>st_folium(map)\<close>\<close>

text \<open>
  The effects of a run: \<open>remote\<close> is whatever the remote calls act on, \<open>slept\<close> the
  arguments of the \<open>time.sleep\<close> calls in order, \<open>ui\<close> the Streamlit output in order.
\<close>

record 'r io =
  remote :: 'r
  slept :: "rat list"
  ui :: "message list"

text \<open>The network as the analyzer sees it: the service's state and the requests sent.\<close>

record 'w net =
  service :: 'w
  sent :: "request list"

subsection \<open>Retry executor\<close>

text \<open>
  \<open>for attempt in range(max_retries)\<close>: the thunk \<open>func\<close> acts on the remote state and
  returns a result or raises. \<open>ApiError\<close> is answered by a warning and a sleep, any
  other exception leaves the loop at once, and the loop falling through raises
  \<open>RuntimeError\<close>.
\<close>

fun retry_attempts ::
  "('r \<Rightarrow> (exn + 'a) \<times> 'r) \<Rightarrow> rat \<Rightarrow> nat \<Rightarrow> nat \<Rightarrow> 'r io \<Rightarrow> (exn + 'a) \<times> 'r io" where
  "retry_attempts func wait attempt 0 s = (Inl RuntimeError, s)"
| "retry_attempts func wait attempt (Suc n) s =
     (case func (remote s) of
        (Inr r, w) \<Rightarrow> (Inr r, s\<lparr>remote := w\<rparr>)
      | (Inl e, w) \<Rightarrow>
          (if e = ApiError
           then retry_attempts func wait (attempt + 1) n
                  (s\<lparr>remote := w,
                     ui := ui s @ [Warning_retry (attempt + 1) wait],
                     slept := slept s @ [wait]\<rparr>)
           else (Inl e, s\<lparr>remote := w\<rparr>)))"

definition retry_request ::
  "('r \<Rightarrow> (exn + 'a) \<times> 'r) \<Rightarrow> nat \<Rightarrow> rat \<Rightarrow> 'r io \<Rightarrow> (exn + 'a) \<times> 'r io" where
  "retry_request func max_retries wait s = retry_attempts func wait 0 max_retries s"

subsection \<open>Boundary extractor\<close>

text \<open>Python's \<open>xs[::step]\<close>: every \<open>step\<close>-th element from the front for a positive
  step, from the back for a negative one, \<open>ValueError\<close> for step zero.\<close>

fun every_nth :: "nat \<Rightarrow> 'a list \<Rightarrow> 'a list" where
  "every_nth n [] = []"
| "every_nth n (x # xs) = x # every_nth n (drop (n - 1) xs)"

definition slice_step :: "'a list \<Rightarrow> int \<Rightarrow> exn + 'a list" where
  "slice_step xs step =
     (if step = 0 then Inl ValueError
      else if 0 < step then Inr (every_nth (nat step) xs)
      else Inr (every_nth (nat (- step)) (rev xs)))"

fun geom_points :: "geometry \<Rightarrow> vertex list" where
  "geom_points (Polygon p) = exterior p"
| "geom_points (MultiPolygon ps) = concat (map exterior ps)"
| "geom_points (OtherGeometry t) = []"

definition boundary_points :: "geometry list \<Rightarrow> vertex list" where
  "boundary_points gdf = concat (map geom_points gdf)"

definition lon_lat :: "vertex \<Rightarrow> coord" where
  "lon_lat point = (vx point, vy point)"

subsection \<open>External collaborators\<close>

text \<open>
  What the module calls and does not define: the service client's \<open>isochrones\<close>, acting
  on the service's state; \<open>gpd.read_file\<close> on the analyzer's \<open>file_kml\<close>, returning the
  rows' geometries or raising; the centroid of the union of the geometries; and Python's
  \<open>float\<close> on a string (\<open>None\<close> when it raises \<open>ValueError\<close>).
\<close>

record ('w, 'f) externals =
  isochrones :: "'w \<Rightarrow> request \<Rightarrow> (exn + feature list) \<times> 'w"
  read_file :: "'f option \<Rightarrow> exn + geometry list"
  union_centroid :: "geometry list \<Rightarrow> coord"
  py_float :: "string \<Rightarrow> rat option"

subsection \<open>Numbers and colours\<close>

definition COLOR_MAP :: "(profile \<times> string) list" where
  "COLOR_MAP =
     [(''driving-traffic'', ''#377eb8''),
      (''driving-car'', ''#1a9641''),
      (''cycling-regular'', ''#fdae61''),
      (''foot-walking'', ''#2b83ba''),
      (''driving-hgv'', ''#a6d96a''),
      (''cycling-electric'', ''#d7191c''),
      (''foot-hiking'', ''#984ea3''),
      (''wheelchair'', ''#ff7f00'')]"

definition warna_fill :: "profile \<Rightarrow> string" where
  "warna_fill p = (case map_of COLOR_MAP p of None \<Rightarrow> ''#666666'' | Some c \<Rightarrow> c)"

text \<open>Python's \<open>round\<close>: to the nearest, a tie to the even neighbour.\<close>

definition round_half_even :: "rat \<Rightarrow> int" where
  "round_half_even x =
     (let f = \<lfloor>x\<rfloor>; d = x - of_int f
      in if d < 1 / 2 then f else if 1 / 2 < d then f + 1 else if even f then f else f + 1)"

definition round2 :: "rat \<Rightarrow> rat" where
  "round2 x = of_int (round_half_even (x * 100)) / 100"

definition km2 :: "rat \<Rightarrow> rat" where
  "km2 area_m2 = round2 (area_m2 / 1000000)"

definition area_m2 :: "feature \<Rightarrow> rat" where
  "area_m2 f = (case farea f of None \<Rightarrow> 0 | Some a \<Rightarrow> a)"

subsection \<open>The analyzer\<close>

record 'f analyzer =
  api_key :: string
  file_kml :: "'f option"
  list_menit :: "int list"
  sampling_interval :: int
  profile_list :: "profile list"
  range_detik :: "int list"
  gdf_kml :: "geometry list option"
  centroid :: "coord option"
  koordinat_list :: "coord list"
  amap :: "map_item list option"
  area_summary :: "(profile \<times> rat) list"

definition init_analyzer ::
  "string \<Rightarrow> 'f option \<Rightarrow> int list \<Rightarrow> profile list \<Rightarrow> int \<Rightarrow> 'f analyzer" where
  "init_analyzer key file menit profiles sampling =
     \<lparr>api_key = key, file_kml = file, list_menit = menit, sampling_interval = sampling,
      profile_list = profiles, range_detik = menit, gdf_kml = None, centroid = None,
      koordinat_list = [], amap = None, area_summary = []\<rparr>"

text \<open>
  \<open>load_kml\<close>: an exception of \<open>read_file\<close> or of the slice is not caught here; an empty
  frame is answered by an error message and \<open>False\<close>.
\<close>

definition load_kml ::
  "('w, 'f) externals \<Rightarrow> 'f analyzer \<Rightarrow> 'r io \<Rightarrow> (exn + bool) \<times> 'f analyzer \<times> 'r io" where
  "load_kml ext az s =
     (case read_file ext (file_kml az) of
        Inl e \<Rightarrow> (Inl e, az, s)
      | Inr gdf \<Rightarrow>
          (if gdf = [] then (Inr False, az, s\<lparr>ui := ui s @ [Error_kml_empty]\<rparr>)
           else
             (let az1 = az\<lparr>gdf_kml := Some gdf, centroid := Some (union_centroid ext gdf)\<rparr>
              in case slice_step (map lon_lat (boundary_points gdf)) (sampling_interval az) of
                   Inl e \<Rightarrow> (Inl e, az1, s)
                 | Inr ks \<Rightarrow>
                     (Inr True, az1\<lparr>koordinat_list := ks\<rparr>,
                      s\<lparr>ui := ui s @ [Info_points (length ks)]\<rparr>))))"

definition build_map :: "'f analyzer \<Rightarrow> exn option \<times> 'f analyzer" where
  "build_map az =
     (case centroid az of
        None \<Rightarrow> (Some AttributeError, az)
      | Some c \<Rightarrow>
          (case gdf_kml az of
             None \<Rightarrow> (Some (OtherException ''GeoJson''), az)
           | Some gdf \<Rightarrow> (None, az\<lparr>amap := Some [BaseMap (snd c, fst c), BoundaryLayer gdf]\<rparr>)))"

subsection \<open>Request dispatcher and aggregation\<close>

definition isochrone_request :: "coord \<Rightarrow> profile \<Rightarrow> int list \<Rightarrow> request" where
  "isochrone_request koordinat p converted_range =
     \<lparr>locations = [koordinat], rprofile = p, rrange = converted_range,
      attributes = [''area''], traffic = (p = ''driving-traffic'')\<rparr>"

text \<open>The lambda handed to \<open>retry_request\<close>: one call of the client, which is recorded.\<close>

definition isochrone_call ::
  "('w, 'f) externals \<Rightarrow> request \<Rightarrow> 'w net \<Rightarrow> (exn + feature list) \<times> 'w net" where
  "isochrone_call ext req n =
     (case isochrones ext (service n) req of
        (r, w) \<Rightarrow> (r, n\<lparr>service := w, sent := sent n @ [req]\<rparr>))"

definition iso_layer :: "profile \<Rightarrow> string \<Rightarrow> rat \<Rightarrow> feature \<Rightarrow> layer" where
  "iso_layer p clr opacity f =
     \<lparr>lfeature = f, lwaktu = fvalue f div 60, lprofile = p, lcolour = clr,
      lopacity = opacity, larea_km2 = km2 (area_m2 f)\<rparr>"

text \<open>\<open>for feature in isochrones["features"]\<close>, on a map that exists.\<close>

fun features_loop ::
  "profile \<Rightarrow> string \<Rightarrow> rat \<Rightarrow> feature list \<Rightarrow> rat \<Rightarrow> map_item list
     \<Rightarrow> rat \<times> map_item list" where
  "features_loop p clr opacity [] total_area items = (total_area, items)"
| "features_loop p clr opacity (f # fs) total_area items =
     features_loop p clr opacity fs (total_area + area_m2 f)
       (items @ [IsoLayer (iso_layer p clr opacity f)])"

text \<open>
  The same loop on \<open>self.map\<close>, which is \<open>None\<close> until \<open>build_map\<close> has run: then the
  first feature's area is added and \<open>add_to\<close> raises.
\<close>

definition add_features ::
  "profile \<Rightarrow> string \<Rightarrow> feature list \<Rightarrow> rat \<Rightarrow> map_item list option
     \<Rightarrow> exn option \<times> rat \<times> map_item list option" where
  "add_features p clr fs total_area m =
     (case m of
        Some items \<Rightarrow>
          (case features_loop p clr (2 / 10) fs total_area items of
             (total_area', items') \<Rightarrow> (None, total_area', Some items'))
      | None \<Rightarrow>
          (case fs of
             [] \<Rightarrow> (None, total_area, None)
           | f # rest \<Rightarrow> (Some AttributeError, total_area + area_m2 f, None)))"

text \<open>The body of the loop over the sample points: the \<open>try\<close> and its \<open>except\<close>.\<close>

definition process_point ::
  "('w, 'f) externals \<Rightarrow> int list \<Rightarrow> profile \<Rightarrow> string \<Rightarrow> nat \<Rightarrow> coord \<Rightarrow> rat
     \<Rightarrow> map_item list option \<Rightarrow> 'w net io \<Rightarrow> rat \<times> map_item list option \<times> 'w net io" where
  "process_point ext converted_range p clr idx koordinat total_area m s =
     (case retry_request (isochrone_call ext (isochrone_request koordinat p converted_range)) 3 5 s of
        (Inl e, s1) \<Rightarrow> (total_area, m, s1\<lparr>ui := ui s1 @ [Error_point idx e]\<rparr>)
      | (Inr fc, s1) \<Rightarrow>
          (case add_features p clr fc total_area m of
             (None, total_area', m') \<Rightarrow> (total_area', m', s1\<lparr>slept := slept s1 @ [5 / 2]\<rparr>)
           | (Some e, total_area', m') \<Rightarrow> (total_area', m', s1\<lparr>ui := ui s1 @ [Error_point idx e]\<rparr>)))"

fun points_loop ::
  "('w, 'f) externals \<Rightarrow> int list \<Rightarrow> profile \<Rightarrow> string \<Rightarrow> nat \<Rightarrow> coord list \<Rightarrow> rat
     \<Rightarrow> map_item list option \<Rightarrow> 'w net io \<Rightarrow> rat \<times> map_item list option \<times> 'w net io" where
  "points_loop ext converted_range p clr idx [] total_area m s = (total_area, m, s)"
| "points_loop ext converted_range p clr idx (koordinat # rest) total_area m s =
     (case process_point ext converted_range p clr idx koordinat total_area m s of
        (total_area', m', s') \<Rightarrow> points_loop ext converted_range p clr (Suc idx) rest total_area' m' s')"

fun profiles_loop ::
  "('w, 'f) externals \<Rightarrow> int list \<Rightarrow> profile list \<Rightarrow> 'f analyzer \<Rightarrow> 'w net io
     \<Rightarrow> 'f analyzer \<times> 'w net io" where
  "profiles_loop ext converted_range [] az s = (az, s)"
| "profiles_loop ext converted_range (p # ps) az s =
     (case points_loop ext converted_range p (warna_fill p) 0 (koordinat_list az) 0 (amap az)
             (s\<lparr>ui := ui s @ [Write_profile p]\<rparr>) of
        (total_area, m, s') \<Rightarrow>
          profiles_loop ext converted_range ps
            (az\<lparr>amap := m, area_summary := area_summary az @ [(p, km2 total_area)]\<rparr>) s')"

text \<open>
  \<open>generate_isochrones\<close> reads the script's global \<open>converted_range\<close>, a parameter
  here. The marker and the layer control after the loops are outside every \<open>try\<close>.
\<close>

definition generate_isochrones ::
  "('w, 'f) externals \<Rightarrow> int list \<Rightarrow> 'f analyzer \<Rightarrow> 'w net io
     \<Rightarrow> exn option \<times> 'f analyzer \<times> 'w net io" where
  "generate_isochrones ext converted_range az s =
     (case profiles_loop ext converted_range (profile_list az) az s of
        (az1, s1) \<Rightarrow>
          (case centroid az1 of
             None \<Rightarrow> (Some AttributeError, az1, s1)
           | Some c \<Rightarrow>
               (case amap az1 of
                  None \<Rightarrow> (Some AttributeError, az1, s1)
                | Some items \<Rightarrow>
                    (None,
                     az1\<lparr>amap := Some (items @ [Marker (snd c, fst c) ''Titik Pusat'', LayerControl])\<rparr>,
                     s1))))"

definition display_summary :: "'f analyzer \<Rightarrow> 'r io \<Rightarrow> 'r io" where
  "display_summary az s =
     s\<lparr>ui := ui s @ Subheader_summary # map (\<lambda>item. Markdown_summary (fst item) (snd item))
                                            (area_summary az)\<rparr>"

definition show_map :: "'f analyzer \<Rightarrow> 'r io \<Rightarrow> exn option \<times> 'r io" where
  "show_map az s =
     (case amap az of
        None \<Rightarrow> (Some (OtherException ''st_folium''), s)
      | Some items \<Rightarrow> (None, s\<lparr>ui := ui s @ [Show_map items]\<rparr>))"

subsection \<open>The Streamlit script\<close>

datatype input_type = File_KML | Titik_Koordinat

datatype range_type = Waktu_menit | Jarak_meter

text \<open>The widget values of one script run, and the \<open>run_analysis\<close> flag after the button.\<close>

record 'f inputs =
  inp_type :: input_type
  inp_file_kml :: "'f option"
  inp_coordinate :: "string option"
  inp_api_key :: string
  inp_range_type :: range_type
  inp_nilai_range :: "int list"
  inp_profile_list :: "profile list"
  inp_sampling :: int
  inp_run_analysis :: bool

definition converted_range :: "'f inputs \<Rightarrow> int list" where
  "converted_range inp =
     (case inp_range_type inp of
        Waktu_menit \<Rightarrow> map (\<lambda>r. r * 60) (inp_nilai_range inp)
      | Jarak_meter \<Rightarrow> inp_nilai_range inp)"

text \<open>\<open>text.split(",")\<close>.\<close>

fun split_comma :: "string \<Rightarrow> string list" where
  "split_comma [] = [[]]"
| "split_comma (c # cs) =
     (if c = CHR '','' then [] # split_comma cs
      else (case split_comma cs of
              [] \<Rightarrow> [[c]]
            | w # ws \<Rightarrow> (c # w) # ws))"

text \<open>\<open>lon, lat = map(float, text.split(","))\<close>: every way this fails is a
  \<open>ValueError\<close>.\<close>

definition parse_lon_lat :: "('w, 'f) externals \<Rightarrow> string \<Rightarrow> exn + rat \<times> rat" where
  "parse_lon_lat ext text =
     (case split_comma text of
        [a, b] \<Rightarrow>
          (case py_float ext a of
             None \<Rightarrow> Inl ValueError
           | Some lon \<Rightarrow>
               (case py_float ext b of
                  None \<Rightarrow> Inl ValueError
                | Some lat \<Rightarrow> Inr (lon, lat)))
      | _ \<Rightarrow> Inl ValueError)"

text \<open>
  The loop over the profiles in the single-point branch: no \<open>try\<close> of its own, so the
  first exception leaves it.
\<close>

fun point_profiles ::
  "('w, 'f) externals \<Rightarrow> int list \<Rightarrow> coord \<Rightarrow> profile list \<Rightarrow> (profile \<times> rat) list
     \<Rightarrow> map_item list \<Rightarrow> 'w net io
     \<Rightarrow> exn option \<times> (profile \<times> rat) list \<times> map_item list \<times> 'w net io" where
  "point_profiles ext conv lon_lat_pt [] summary items s = (None, summary, items, s)"
| "point_profiles ext conv lon_lat_pt (p # ps) summary items s =
     (case retry_request (isochrone_call ext (isochrone_request lon_lat_pt p conv)) 3 5
             (s\<lparr>ui := ui s @ [Write_profile p]\<rparr>) of
        (Inl e, s1) \<Rightarrow> (Some e, summary, items, s1)
      | (Inr fc, s1) \<Rightarrow>
          (case features_loop p (warna_fill p) (4 / 10) fc 0 items of
             (total_area, items') \<Rightarrow>
               point_profiles ext conv lon_lat_pt ps (summary @ [(p, km2 total_area)]) items' s1))"

definition point_branch :: "('w, 'f) externals \<Rightarrow> 'f inputs \<Rightarrow> 'w net io \<Rightarrow> 'w net io" where
  "point_branch ext inp s =
     (case inp_coordinate inp of
        None \<Rightarrow> s\<lparr>ui := ui s @ [Error_coord AttributeError]\<rparr>
      | Some text \<Rightarrow>
          (case parse_lon_lat ext text of
             Inl e \<Rightarrow> s\<lparr>ui := ui s @ [Error_coord e]\<rparr>
           | Inr (lon, lat) \<Rightarrow>
               (case point_profiles ext (converted_range inp) (lon, lat) (inp_profile_list inp)
                       [] [BaseMap (lat, lon)] s of
                  (Some e, summary, items, s1) \<Rightarrow> s1\<lparr>ui := ui s1 @ [Error_coord e]\<rparr>
                | (None, summary, items, s1) \<Rightarrow>
                    s1\<lparr>ui := ui s1 @
                          Subheader_summary #
                          map (\<lambda>item. Markdown_summary (fst item) (snd item)) summary @
                          [Show_map (items @ [Marker (lat, lon) ''Titik Input'', LayerControl])]\<rparr>)))"

text \<open>
  Lines 237 to 242, which follow the \<open>if\<close>/\<open>elif\<close> on the input type at its own
  indentation: \<open>path_kml\<close> is bound only by the file branch.
\<close>

definition analysis_tail ::
  "('w, 'f) externals \<Rightarrow> 'f inputs \<Rightarrow> 'f option \<Rightarrow> 'w net io \<Rightarrow> exn option \<times> 'w net io" where
  "analysis_tail ext inp path_kml s =
     (case path_kml of
        None \<Rightarrow> (Some NameError, s)
      | Some f \<Rightarrow>
          (case load_kml ext
                  (init_analyzer (inp_api_key inp) (Some f) (converted_range inp)
                     (inp_profile_list inp) (inp_sampling inp)) s of
             (Inl e, az1, s1) \<Rightarrow> (Some e, s1)
           | (Inr loaded, az1, s1) \<Rightarrow>
               (if \<not> loaded then (None, s1)
                else
                  (case build_map az1 of
                     (Some e, az2) \<Rightarrow> (Some e, s1)
                   | (None, az2) \<Rightarrow>
                       (case generate_isochrones ext (converted_range inp) az2 s1 of
                          (Some e, az3, s2) \<Rightarrow> (Some e, s2)
                        | (None, az3, s2) \<Rightarrow> show_map az3 (display_summary az3 s2))))))"

text \<open>The script from \<open>if st.session_state.run_analysis\<close> on: the exception that
  leaves it, if any, and the effects.\<close>

definition driver ::
  "('w, 'f) externals \<Rightarrow> 'f inputs \<Rightarrow> 'w net io \<Rightarrow> exn option \<times> 'w net io" where
  "driver ext inp s =
     (if \<not> inp_run_analysis inp then (None, s)
      else
        (case inp_type inp of
           File_KML \<Rightarrow>
             (case inp_file_kml inp of
                None \<Rightarrow> (Some AttributeError, s)
              | Some f \<Rightarrow> analysis_tail ext inp (Some f) s)
         | Titik_Koordinat \<Rightarrow> analysis_tail ext inp None (point_branch ext inp s)))"

subsection \<open>Auxiliary notions for the statements\<close>

text \<open>The remote state after \<open>k\<close> successive calls of a thunk.\<close>

definition after_calls :: "('r \<Rightarrow> (exn + 'a) \<times> 'r) \<Rightarrow> nat \<Rightarrow> 'r \<Rightarrow> 'r" where
  "after_calls func k w = ((\<lambda>v. snd (func v)) ^^ k) w"

text \<open>
  Three thunks on a call counter, for concrete runs: \<open>thunk_flaky\<close> raises \<open>ApiError\<close>
  twice and then returns, \<open>thunk_limited\<close> raises \<open>ApiError\<close> always, \<open>thunk_denied\<close>
  raises \<open>ApiError\<close> once and then another exception.
\<close>

definition thunk_flaky :: "nat \<Rightarrow> (exn + int) \<times> nat" where
  "thunk_flaky n = (if n < 2 then Inl ApiError else Inr 42, Suc n)"

definition thunk_limited :: "nat \<Rightarrow> (exn + int) \<times> nat" where
  "thunk_limited n = (Inl ApiError, Suc n)"

definition thunk_denied :: "nat \<Rightarrow> (exn + int) \<times> nat" where
  "thunk_denied n = (if n < 1 then Inl ApiError else Inl (OtherException ''timeout''), Suc n)"

definition io0 :: "nat io" where
  "io0 = \<lparr>remote = 0, slept = [], ui = []\<rparr>"


text \<open>
  What a shown map says about thresholds: for each isochrone layer the value the service
  returned and the number in the layer's label. \<open>minutes_labels\<close> holds when every
  label is the value integer-divided by 60.
\<close>

fun item_labels :: "map_item \<Rightarrow> (int \<times> int) list" where
  "item_labels (IsoLayer l) = [(fvalue (lfeature l), lwaktu l)]"
| "item_labels other = []"

definition map_labels :: "map_item list \<Rightarrow> (int \<times> int) list" where
  "map_labels items = concat (map item_labels items)"

fun message_labels :: "message \<Rightarrow> (int \<times> int) list" where
  "message_labels (Show_map items) = map_labels items"
| "message_labels other = []"

definition shown_labels :: "message list \<Rightarrow> (int \<times> int) list" where
  "shown_labels msgs = concat (map message_labels msgs)"

definition minutes_labels :: "(int \<times> int) list \<Rightarrow> bool" where
  "minutes_labels labels = list_all (\<lambda>(v, w). w = v div 60) labels"


subsection \<open>A concrete service, file reader and inputs\<close>

text \<open>
  For concrete runs: a closed square ring of five vertices; a reader that knows an empty
  file \<open>0\<close> and the square \<open>1\<close>; a service that counts its calls, refuses the profile
  \<open>wheelchair\<close>, answers \<open>ApiError\<close> for the point \<open>(1, 1)\<close> and otherwise returns one
  feature of 2,500,000 square metres per requested threshold.
\<close>

definition square :: polygon where
  "square =
     \<lparr>exterior =
        [\<lparr>vx = 0, vy = 0, vz = None\<rparr>, \<lparr>vx = 1, vy = 0, vz = None\<rparr>,
         \<lparr>vx = 1, vy = 1, vz = None\<rparr>, \<lparr>vx = 0, vy = 1, vz = None\<rparr>,
         \<lparr>vx = 0, vy = 0, vz = None\<rparr>],
      interiors = []\<rparr>"

definition demo_read_file :: "nat option \<Rightarrow> exn + geometry list" where
  "demo_read_file f =
     (if f = Some 0 then Inr []
      else if f = Some 1 then Inr [Polygon square]
      else Inl (OtherException ''unreadable''))"

definition demo_isochrones :: "nat \<Rightarrow> request \<Rightarrow> (exn + feature list) \<times> nat" where
  "demo_isochrones n req =
     (if rprofile req = ''wheelchair'' then Inl (OtherException ''unavailable'')
      else if locations req = [(1, 1)] then Inl ApiError
      else Inr (map (\<lambda>v. \<lparr>fvalue = v, farea = Some 2500000\<rparr>) (rrange req)),
      Suc n)"

definition demo_float :: "string \<Rightarrow> rat option" where
  "demo_float txt =
     (if txt = ''106.8'' then Some (1068 / 10)
      else if txt = ''-6.2'' then Some (- 62 / 10)
      else None)"

definition demo_ext :: "(nat, nat) externals" where
  "demo_ext =
     \<lparr>isochrones = demo_isochrones, read_file = demo_read_file,
      union_centroid = (\<lambda>gdf. (1 / 2, 1 / 2)), py_float = demo_float\<rparr>"

definition net0 :: "nat net io" where
  "net0 = \<lparr>remote = \<lparr>service = 0, sent = []\<rparr>, slept = [], ui = []\<rparr>"


definition demo_az :: "nat analyzer" where
  "demo_az =
     (init_analyzer ''key'' (Some 1) [300] [''driving-car'', ''wheelchair''] 2)
       \<lparr>centroid := Some (1 / 2, 1 / 2), koordinat_list := [(0, 0), (1, 1), (0, 1)],
        amap := Some []\<rparr>"

definition demo_inputs :: "nat inputs" where
  "demo_inputs =
     \<lparr>inp_type = File_KML, inp_file_kml = Some 1, inp_coordinate = None,
      inp_api_key = ''key'', inp_range_type = Waktu_menit, inp_nilai_range = [5],
      inp_profile_list = [''driving-car''], inp_sampling = 5, inp_run_analysis = True\<rparr>"


subsection \<open>Retry executor: results\<close>

lemma after_calls_0 [simp]: "after_calls func 0 w = w"
  by (simp add: after_calls_def)

lemma after_calls_Suc: "after_calls func (Suc k) w = after_calls func k (snd (func w))"
  using funpow_swap1 [of "\<lambda>v. snd (func v)" k w] by (simp add: after_calls_def)

lemma retry_attempts_stop:
  assumes "\<forall>j<k. fst (func (after_calls func j (remote s))) = Inl ApiError"
    and "fst (func (after_calls func k (remote s))) = out"
    and "out \<noteq> Inl ApiError"
    and "k < n"
  shows "retry_attempts func wait a n s =
           (out, s\<lparr>remote := after_calls func (Suc k) (remote s),
                    ui := ui s @ map (\<lambda>i. Warning_retry (a + i + 1) wait) [0..<k],
                    slept := slept s @ replicate k wait\<rparr>)"
  using assms
proof (induction k arbitrary: n s a)
  case 0
  then obtain m where n: "n = Suc m" by (cases n) auto
  obtain r w where fw: "func (remote s) = (r, w)" by (cases "func (remote s)")
  with 0 have r: "r = out" by simp
  show ?case using fw r \<open>out \<noteq> Inl ApiError\<close> n
    by (cases out) (auto simp: after_calls_Suc split: sum.splits)
next
  case (Suc k)
  then obtain m where n: "n = Suc m" by (cases n) auto
  obtain r w where fw: "func (remote s) = (r, w)" by (cases "func (remote s)")
  from Suc.prems(1) have "fst (func (after_calls func 0 (remote s))) = Inl ApiError"
    by blast
  with fw have r: "r = Inl ApiError" by simp
  let ?s = "s\<lparr>remote := w, ui := ui s @ [Warning_retry (a + 1) wait],
               slept := slept s @ [wait]\<rparr>"
  have shift: "after_calls func j (remote ?s) = after_calls func (Suc j) (remote s)" for j
    using fw by (simp add: after_calls_Suc)
  have p1: "\<forall>j<k. fst (func (after_calls func j (remote ?s))) = Inl ApiError"
    using Suc.prems(1) shift by (metis Suc_less_eq)
  have p2: "fst (func (after_calls func k (remote ?s))) = out"
    using Suc.prems(2) shift by metis
  have km: "k < m" using Suc.prems(4) n by simp
  have ih: "retry_attempts func wait (a + 1) m ?s =
           (out, ?s\<lparr>remote := after_calls func (Suc k) (remote ?s),
                    ui := ui ?s @ map (\<lambda>i. Warning_retry (a + 1 + i + 1) wait) [0..<k],
                    slept := slept ?s @ replicate k wait\<rparr>)"
    by (rule Suc.IH [OF p1 p2 Suc.prems(3) km])
  have maps: "map (\<lambda>i. Warning_retry (a + i + 1) wait) [0..<Suc k] =
              Warning_retry (a + 1) wait # map (\<lambda>i. Warning_retry (a + 1 + i + 1) wait) [0..<k]"
    by (simp add: upt_conv_Cons map_Suc_upt [symmetric] del: upt_Suc)
  have "retry_attempts func wait a n s = retry_attempts func wait (a + 1) m ?s"
    using fw r n by simp
  also note ih
  finally show ?case
    using shift [of "Suc k"] maps by (simp del: upt_Suc)
qed

lemma retry_attempts_exhaust:
  assumes "\<forall>j<n. fst (func (after_calls func j (remote s))) = Inl ApiError"
  shows "retry_attempts func wait a n s =
           (Inl RuntimeError,
            s\<lparr>remote := after_calls func n (remote s),
              ui := ui s @ map (\<lambda>i. Warning_retry (a + i + 1) wait) [0..<n],
              slept := slept s @ replicate n wait\<rparr>)"
  using assms
proof (induction n arbitrary: s a)
  case 0
  show ?case by simp
next
  case (Suc m)
  obtain r w where fw: "func (remote s) = (r, w)" by (cases "func (remote s)")
  from Suc.prems have "fst (func (after_calls func 0 (remote s))) = Inl ApiError"
    by blast
  with fw have r: "r = Inl ApiError" by simp
  let ?s = "s\<lparr>remote := w, ui := ui s @ [Warning_retry (a + 1) wait],
               slept := slept s @ [wait]\<rparr>"
  have shift: "after_calls func j (remote ?s) = after_calls func (Suc j) (remote s)" for j
    using fw by (simp add: after_calls_Suc)
  have p1: "\<forall>j<m. fst (func (after_calls func j (remote ?s))) = Inl ApiError"
    using Suc.prems shift by (metis Suc_less_eq)
  have ih: "retry_attempts func wait (a + 1) m ?s =
           (Inl RuntimeError,
            ?s\<lparr>remote := after_calls func m (remote ?s),
               ui := ui ?s @ map (\<lambda>i. Warning_retry (a + 1 + i + 1) wait) [0..<m],
               slept := slept ?s @ replicate m wait\<rparr>)"
    by (rule Suc.IH [OF p1])
  have maps: "map (\<lambda>i. Warning_retry (a + i + 1) wait) [0..<Suc m] =
              Warning_retry (a + 1) wait # map (\<lambda>i. Warning_retry (a + 1 + i + 1) wait) [0..<m]"
    by (simp add: upt_conv_Cons map_Suc_upt [symmetric] del: upt_Suc)
  have "retry_attempts func wait a (Suc m) s = retry_attempts func wait (a + 1) m ?s"
    using fw r by simp
  also note ih
  finally show ?case
    using shift [of m] maps by (simp del: upt_Suc)
qed

text \<open>
  C4. A call that raises \<open>ApiError\<close> on its first \<open>K < max_retries\<close> attempts and
  then succeeds: \<open>retry_request\<close> returns that result, has called the thunk \<open>K + 1\<close>
  times and has slept exactly \<open>K\<close> times. A call that raises \<open>ApiError\<close> on each of
  the \<open>max_retries\<close> attempts: \<open>retry_request\<close> has called the thunk exactly
  \<open>max_retries\<close> times and raises \<open>RuntimeError\<close>, the exhausted-retries failure.
\<close>

theorem retry_request_contract:
  "(K < max_retries \<and>
    (\<forall>j<K. fst (func (after_calls func j (remote s))) = Inl ApiError) \<and>
    fst (func (after_calls func K (remote s))) = Inr r
    \<longrightarrow> fst (retry_request func max_retries wait s) = Inr r \<and>
        slept (snd (retry_request func max_retries wait s)) = slept s @ replicate K wait \<and>
        remote (snd (retry_request func max_retries wait s)) = after_calls func (Suc K) (remote s))
   \<and>
   ((\<forall>j<max_retries. fst (func (after_calls func j (remote s))) = Inl ApiError)
    \<longrightarrow> fst (retry_request func max_retries wait s) = Inl RuntimeError \<and>
        remote (snd (retry_request func max_retries wait s)) =
          after_calls func max_retries (remote s))"
proof (intro conjI impI)
  assume h: "K < max_retries \<and>
    (\<forall>j<K. fst (func (after_calls func j (remote s))) = Inl ApiError) \<and>
    fst (func (after_calls func K (remote s))) = Inr r"
  have eq: "retry_request func max_retries wait s =
      (Inr r, s\<lparr>remote := after_calls func (Suc K) (remote s),
                  ui := ui s @ map (\<lambda>i. Warning_retry (0 + i + 1) wait) [0..<K],
                  slept := slept s @ replicate K wait\<rparr>)"
    unfolding retry_request_def
    using h by (intro retry_attempts_stop) auto
  show "fst (retry_request func max_retries wait s) = Inr r"
    by (simp add: eq)
  show "slept (snd (retry_request func max_retries wait s)) = slept s @ replicate K wait"
    by (simp add: eq)
  show "remote (snd (retry_request func max_retries wait s)) = after_calls func (Suc K) (remote s)"
    by (simp add: eq)
next
  assume h: "\<forall>j<max_retries. fst (func (after_calls func j (remote s))) = Inl ApiError"
  have eq: "retry_request func max_retries wait s =
      (Inl RuntimeError,
       s\<lparr>remote := after_calls func max_retries (remote s),
         ui := ui s @ map (\<lambda>i. Warning_retry (0 + i + 1) wait) [0..<max_retries],
         slept := slept s @ replicate max_retries wait\<rparr>)"
    unfolding retry_request_def using h by (rule retry_attempts_exhaust)
  show "fst (retry_request func max_retries wait s) = Inl RuntimeError"
    by (simp add: eq)
  show "remote (snd (retry_request func max_retries wait s)) =
          after_calls func max_retries (remote s)"
    by (simp add: eq)
qed

text \<open>
  C5. An exception other than \<open>ApiError\<close>, at whichever attempt it is raised (after
  \<open>K\<close> attempts that raised \<open>ApiError\<close>), leaves \<open>retry_request\<close> at once: it is the
  result, the thunk is not called again, and no warning or sleep is added beyond the \<open>K\<close>
  that the earlier \<open>ApiError\<close>s caused. Raised at the first attempt, there is no sleep.
\<close>

theorem retry_request_other_failure:
  assumes "K < max_retries"
    and "\<forall>j<K. fst (func (after_calls func j (remote s))) = Inl ApiError"
    and "fst (func (after_calls func K (remote s))) = Inl e"
    and "e \<noteq> ApiError"
  shows "retry_request func max_retries wait s =
           (Inl e, s\<lparr>remote := after_calls func (Suc K) (remote s),
                      ui := ui s @ map (\<lambda>i. Warning_retry (i + 1) wait) [0..<K],
                      slept := slept s @ replicate K wait\<rparr>)"
proof -
  have "retry_attempts func wait 0 max_retries s =
           (Inl e, s\<lparr>remote := after_calls func (Suc K) (remote s),
                      ui := ui s @ map (\<lambda>i. Warning_retry (0 + i + 1) wait) [0..<K],
                      slept := slept s @ replicate K wait\<rparr>)"
    using assms by (intro retry_attempts_stop) auto
  then show ?thesis by (simp add: retry_request_def)
qed

lemma after_calls_flaky: "after_calls thunk_flaky j n = n + j"
  by (induction j arbitrary: n) (simp_all add: after_calls_Suc thunk_flaky_def)

lemma after_calls_limited: "after_calls thunk_limited j n = n + j"
  by (induction j arbitrary: n) (simp_all add: after_calls_Suc thunk_limited_def)

lemma after_calls_denied: "after_calls thunk_denied j n = n + j"
  by (induction j arbitrary: n) (simp_all add: after_calls_Suc thunk_denied_def)

theorem retry_request_contract_witness:
  "fst (retry_request thunk_flaky 3 5 io0) = Inr 42 \<and>
   slept (snd (retry_request thunk_flaky 3 5 io0)) = [5, 5] \<and>
   remote (snd (retry_request thunk_flaky 3 5 io0)) = 3 \<and>
   fst (retry_request thunk_limited 3 5 io0) = Inl RuntimeError \<and>
   remote (snd (retry_request thunk_limited 3 5 io0)) = 3"
proof -
  have a: "2 < (3::nat) \<and>
    (\<forall>j<2. fst (thunk_flaky (after_calls thunk_flaky j (remote io0))) = Inl ApiError) \<and>
    fst (thunk_flaky (after_calls thunk_flaky 2 (remote io0))) = Inr 42"
    by (simp add: after_calls_flaky thunk_flaky_def io0_def)
  have b: "\<forall>j<3. fst (thunk_limited (after_calls thunk_limited j (remote io0))) = Inl ApiError"
    by (simp add: thunk_limited_def)
  from a b retry_request_contract [of 2 3 thunk_flaky io0 42 5]
    retry_request_contract [of 2 3 thunk_limited io0 42 5]
  show ?thesis
    by (simp add: after_calls_flaky after_calls_limited numeral_2_eq_2 io0_def)
qed

theorem retry_request_other_failure_witness:
  "retry_request thunk_denied 3 5 io0 =
     (Inl (OtherException ''timeout''),
      \<lparr>remote = 2, slept = [5], ui = [Warning_retry 1 5]\<rparr>)"
proof -
  have a: "(1::nat) < 3" by simp
  have b: "\<forall>j<1. fst (thunk_denied (after_calls thunk_denied j (remote io0))) = Inl ApiError"
    by (simp add: thunk_denied_def io0_def)
  have c: "fst (thunk_denied (after_calls thunk_denied 1 (remote io0))) =
             Inl (OtherException ''timeout'')"
    by (simp add: after_calls_denied thunk_denied_def io0_def)
  have d: "OtherException ''timeout'' \<noteq> ApiError" by simp
  show ?thesis
    using retry_request_other_failure [OF a b c d, of 5]
    by (simp add: after_calls_denied io0_def)
qed

subsection \<open>Boundary extractor: results\<close>






subsection \<open>Dispatcher and aggregation: results\<close>



lemma process_point_failed:
  "retry_request (isochrone_call ext (isochrone_request k p conv)) 3 5 s = (Inl e, s1) \<Longrightarrow>
   process_point ext conv p clr idx k t m s = (t, m, s1\<lparr>ui := ui s1 @ [Error_point idx e]\<rparr>)"
  by (simp add: process_point_def)






lemma profiles_loop_summary_names:
  "map fst (area_summary (fst (profiles_loop ext conv ps az s))) =
     map fst (area_summary az) @ ps"
proof (induction ps arbitrary: az s)
  case Nil
  show ?case by simp
next
  case (Cons p ps)
  obtain t m s' where pl:
    "points_loop ext conv p (warna_fill p) 0 (koordinat_list az) 0 (amap az)
       (s\<lparr>ui := ui s @ [Write_profile p]\<rparr>) = (t, m, s')"
    by (metis prod_cases3)
  show ?case
    using pl Cons.IH [of "az\<lparr>amap := m, area_summary := area_summary az @ [(p, km2 t)]\<rparr>" s']
    by simp
qed

lemma profiles_loop_summary_prefix:
  "take (length (area_summary az)) (area_summary (fst (profiles_loop ext conv ps az s))) =
     area_summary az"
proof (induction ps arbitrary: az s)
  case Nil
  show ?case by simp
next
  case (Cons p ps)
  obtain t m s' where pl:
    "points_loop ext conv p (warna_fill p) 0 (koordinat_list az) 0 (amap az)
       (s\<lparr>ui := ui s @ [Write_profile p]\<rparr>) = (t, m, s')"
    by (metis prod_cases3)
  let ?az = "az\<lparr>amap := m, area_summary := area_summary az @ [(p, km2 t)]\<rparr>"
  have "take (length (area_summary ?az)) (area_summary (fst (profiles_loop ext conv ps ?az s'))) =
          area_summary ?az"
    by (rule Cons.IH)
  then have "take (length (area_summary az))
               (take (length (area_summary ?az)) (area_summary (fst (profiles_loop ext conv ps ?az s')))) =
             take (length (area_summary az)) (area_summary ?az)"
    by simp
  then show ?case using pl by (simp add: min_def)
qed


lemma generate_isochrones_summary:
  "area_summary (fst (snd (generate_isochrones ext conv az s))) =
     area_summary (fst (profiles_loop ext conv (profile_list az) az s))"
  by (simp add: generate_isochrones_def split: prod.splits option.splits)






lemma retry_attempts_all_fail:
  "\<forall>w. isl (fst (func w)) \<Longrightarrow> isl (fst (retry_attempts func wait a n s))"
proof (induction n arbitrary: a s)
  case 0
  show ?case by simp
next
  case (Suc n)
  obtain r w where fw: "func (remote s) = (r, w)" by (cases "func (remote s)")
  with Suc.prems have "isl r" by (metis fst_conv)
  then obtain e where "r = Inl e" by (cases r) auto
  then show ?case using fw Suc.IH [OF Suc.prems] by simp
qed

lemma process_point_all_fail:
  assumes "\<forall>w k. isl (fst (isochrones ext w (isochrone_request k p conv)))"
  shows "fst (process_point ext conv p clr idx k t m s) = t"
proof -
  have "isl (fst (isochrone_call ext (isochrone_request k p conv) n))" for n
  proof -
    obtain r w where iso: "isochrones ext (service n) (isochrone_request k p conv) = (r, w)"
      by (cases "isochrones ext (service n) (isochrone_request k p conv)")
    with assms have "isl r" by (metis fst_conv)
    then show ?thesis using iso by (simp add: isochrone_call_def)
  qed
  then have "\<forall>n. isl (fst (isochrone_call ext (isochrone_request k p conv) n))" by blast
  then have "isl (fst (retry_request (isochrone_call ext (isochrone_request k p conv)) 3 5 s))"
    unfolding retry_request_def by (rule retry_attempts_all_fail)
  then obtain e s1 where
    "retry_request (isochrone_call ext (isochrone_request k p conv)) 3 5 s = (Inl e, s1)"
    by (metis isl_def prod.collapse)
  then show ?thesis by (simp add: process_point_failed)
qed

lemma points_loop_all_fail:
  assumes "\<forall>w k. isl (fst (isochrones ext w (isochrone_request k p conv)))"
  shows "fst (points_loop ext conv p clr idx ks t m s) = t"
proof (induction ks arbitrary: idx t m s)
  case Nil
  show ?case by simp
next
  case (Cons k ks)
  obtain t' m' s' where pp: "process_point ext conv p clr idx k t m s = (t', m', s')"
    by (metis prod_cases3)
  then have "t' = t" using process_point_all_fail [OF assms, of clr idx k t m s] by simp
  then show ?case using pp Cons.IH by simp
qed

lemma km2_0 [simp]: "km2 0 = 0"
  by (simp add: km2_def round2_def round_half_even_def)

lemma profiles_loop_all_fail:
  assumes "\<forall>w k. isl (fst (isochrones ext w (isochrone_request k p conv)))"
  shows "i < length ps \<Longrightarrow> ps ! i = p \<Longrightarrow>
         area_summary (fst (profiles_loop ext conv ps az s)) ! (length (area_summary az) + i) = (p, 0)"
proof (induction ps arbitrary: i az s)
  case Nil
  then show ?case by simp
next
  case (Cons q ps)
  obtain t m s' where pl:
    "points_loop ext conv q (warna_fill q) 0 (koordinat_list az) 0 (amap az)
       (s\<lparr>ui := ui s @ [Write_profile q]\<rparr>) = (t, m, s')"
    by (metis prod_cases3)
  let ?az = "az\<lparr>amap := m, area_summary := area_summary az @ [(q, km2 t)]\<rparr>"
  have run: "profiles_loop ext conv (q # ps) az s = profiles_loop ext conv ps ?az s'"
    using pl by simp
  show ?case
  proof (cases i)
    case 0
    with Cons.prems have qp: "q = p" by simp
    then have t0: "t = 0"
      using points_loop_all_fail [OF assms, of "warna_fill p" 0 "koordinat_list az" 0 "amap az"
          "s\<lparr>ui := ui s @ [Write_profile p]\<rparr>"] pl
      by simp
    have "take (length (area_summary ?az)) (area_summary (fst (profiles_loop ext conv ps ?az s'))) =
            area_summary ?az"
      by (rule profiles_loop_summary_prefix)
    then have "take (Suc (length (area_summary az)))
                 (area_summary (fst (profiles_loop ext conv ps ?az s'))) =
               area_summary az @ [(q, km2 t)]"
      by simp
    then have "area_summary (fst (profiles_loop ext conv ps ?az s')) ! length (area_summary az) =
                 (area_summary az @ [(q, km2 t)]) ! length (area_summary az)"
      by (metis lessI nth_take)
    then show ?thesis using run 0 qp t0 by simp
  next
    case (Suc j)
    with Cons.prems have "j < length ps" "ps ! j = p" by simp_all
    from Cons.IH [OF this, of ?az s'] show ?thesis using run Suc by simp
  qed
qed

text \<open>
  C10. After \<open>generate_isochrones\<close> the summary has one entry per configured profile, in
  the configured order, and the entry of a profile all of whose requests fail is 0.
\<close>

theorem summary_entry_per_profile:
  assumes "\<forall>w k. isl (fst (isochrones ext w (isochrone_request k p conv)))"
  shows "map fst (area_summary (fst (snd (generate_isochrones ext conv az s)))) =
           map fst (area_summary az) @ profile_list az \<and>
         (\<forall>i<length (profile_list az). profile_list az ! i = p \<longrightarrow>
            area_summary (fst (snd (generate_isochrones ext conv az s))) !
              (length (area_summary az) + i) = (p, 0))"
  using profiles_loop_all_fail [OF assms]
  by (simp add: generate_isochrones_summary profiles_loop_summary_names)

theorem summary_entry_per_profile_witness:
  "map fst (area_summary (fst (snd (generate_isochrones demo_ext [300] demo_az net0)))) =
     [''driving-car'', ''wheelchair''] \<and>
   area_summary (fst (snd (generate_isochrones demo_ext [300] demo_az net0))) ! 1 =
     (''wheelchair'', 0)"
proof -
  have a: "\<forall>w k. isl (fst (isochrones demo_ext w (isochrone_request k ''wheelchair'' [300])))"
    by (simp add: demo_ext_def demo_isochrones_def isochrone_request_def)
  have b: "area_summary demo_az = []" "profile_list demo_az = [''driving-car'', ''wheelchair'']"
    by (simp_all add: demo_az_def init_analyzer_def)
  from summary_entry_per_profile [OF a, where az = demo_az and s = net0] b show ?thesis
    by simp
qed




subsection \<open>The script: results\<close>

text \<open>
  C8. A run on a boundary file that parses to an empty frame shows the error message and
  ends: no request is sent, the service is not touched, nothing else is shown.
\<close>

theorem empty_region_no_requests:
  assumes "inp_run_analysis inp"
    and "inp_type inp = File_KML"
    and "inp_file_kml inp = Some f"
    and "read_file ext (Some f) = Inr []"
  shows "driver ext inp s = (None, s\<lparr>ui := ui s @ [Error_kml_empty]\<rparr>)"
  using assms
  by (simp add: driver_def analysis_tail_def load_kml_def init_analyzer_def)

theorem empty_region_no_requests_witness:
  "driver demo_ext (demo_inputs\<lparr>inp_file_kml := Some 0\<rparr>) net0 =
     (None, \<lparr>remote = \<lparr>service = 0, sent = []\<rparr>, slept = [], ui = [Error_kml_empty]\<rparr>)"
proof -
  have a: "inp_run_analysis (demo_inputs\<lparr>inp_file_kml := Some 0\<rparr>)"
    and b: "inp_type (demo_inputs\<lparr>inp_file_kml := Some 0\<rparr>) = File_KML"
    and c: "inp_file_kml (demo_inputs\<lparr>inp_file_kml := Some 0\<rparr>) = Some 0"
    by (simp_all add: demo_inputs_def)
  have d: "read_file demo_ext (Some 0) = Inr []"
    by (simp add: demo_ext_def demo_read_file_def)
  from empty_region_no_requests [OF a b c d, where s = net0] show ?thesis
    by (simp add: net0_def)
qed

lemma point_mode_escapes:
  "inp_run_analysis inp \<Longrightarrow> inp_type inp = Titik_Koordinat \<Longrightarrow>
   fst (driver ext inp s) = Some NameError"
  by (simp add: driver_def analysis_tail_def)

lemma malformed_coordinate_reported:
  "inp_coordinate inp = Some txt \<Longrightarrow> parse_lon_lat ext txt = Inl e \<Longrightarrow>
   point_branch ext inp s = s\<lparr>ui := ui s @ [Error_coord e]\<rparr>"
  by (simp add: point_branch_def)

text \<open>
  C9. A single-point run on the coordinate \<open>106.8,-6.2\<close> with one profile: the isochrone
  is fetched, the summary and the map are shown, and then line 237 reads \<open>path_kml\<close>,
  which only the file branch binds: \<open>NameError\<close> leaves the script.
\<close>

theorem single_point_run_escapes:
  "driver demo_ext
     (demo_inputs\<lparr>inp_type := Titik_Koordinat, inp_file_kml := None,
                   inp_coordinate := Some ''106.8,-6.2''\<rparr>) net0 =
   (Some NameError,
    \<lparr>remote = \<lparr>service = 1,
                sent = [isochrone_request (1068 / 10, - 62 / 10) ''driving-car'' [300]]\<rparr>,
      slept = [],
      ui = [Write_profile ''driving-car'', Subheader_summary,
            Markdown_summary ''driving-car'' (5 / 2),
            Show_map [BaseMap (- 62 / 10, 1068 / 10),
                      IsoLayer (iso_layer ''driving-car'' ''#1a9641'' (4 / 10)
                                  \<lparr>fvalue = 300, farea = Some 2500000\<rparr>),
                      Marker (- 62 / 10, 1068 / 10) ''Titik Input'', LayerControl]]\<rparr>)"
  by code_simp

subsection \<open>Threshold labels\<close>

lemma minutes_labels_append [simp]:
  "minutes_labels (xs @ ys) = (minutes_labels xs \<and> minutes_labels ys)"
  by (simp add: minutes_labels_def)

lemma minutes_labels_Nil [simp]: "minutes_labels []"
  by (simp add: minutes_labels_def)

lemma shown_labels_append [simp]:
  "shown_labels (xs @ ys) = shown_labels xs @ shown_labels ys"
  by (simp add: shown_labels_def)

lemma map_labels_append [simp]: "map_labels (xs @ ys) = map_labels xs @ map_labels ys"
  by (simp add: map_labels_def)

lemma shown_labels_simps [simp]:
  "shown_labels [] = []"
  "shown_labels [Warning_retry n w] = []"
  "shown_labels [Error_kml_empty] = []"
  "shown_labels [Info_points n] = []"
  "shown_labels [Write_profile p] = []"
  "shown_labels [Error_point n e] = []"
  "shown_labels [Error_coord e] = []"
  "shown_labels (Subheader_summary # msgs) = shown_labels msgs"
  "shown_labels [Show_map items] = map_labels items"
  by (simp_all add: shown_labels_def)

lemma shown_labels_summary [simp]:
  "shown_labels (map (\<lambda>item. Markdown_summary (fst item) (snd item)) summary) = []"
  by (induction summary) (simp_all add: shown_labels_def)















end
